theory Spec2Isabelle
  imports Main
begin

section \<open>The host environment\<close>

text \<open>
  The hook talks to three kinds of host object: element handles, the global
  \<^verbatim>\<open>document\<close>, and the document's event listener list. Objects are compared by
  identity (\<^verbatim>\<open>===\<close>), so an object is a reference; a property that holds an element
  is \<^verbatim>\<open>undefined\<close>, \<^verbatim>\<open>null\<close> or a reference.
\<close>

type_synonym ref = nat

datatype jsval = Undefined | Null | Ref ref

text \<open>JavaScript truthiness: \<^verbatim>\<open>undefined\<close> and \<^verbatim>\<open>null\<close> are falsy, every object is truthy.\<close>

primrec truthy :: "jsval \<Rightarrow> bool" where
  "truthy Undefined = False"
| "truthy Null = False"
| "truthy (Ref r) = True"

text \<open>\<^verbatim>\<open>a || b\<close>: the left operand when it is truthy, the right operand otherwise.\<close>

definition js_or :: "jsval \<Rightarrow> jsval \<Rightarrow> jsval" where
  "js_or a b = (if truthy a then a else b)"

text \<open>The only way the code can throw by itself: a property read on \<^verbatim>\<open>null\<close> or \<^verbatim>\<open>undefined\<close>.\<close>

datatype error = TypeError

datatype request_method =
  RequestFullscreen | WebkitRequestFullscreen | MozRequestFullScreen | MsRequestFullscreen

datatype exit_method =
  ExitFullscreen | WebkitExitFullscreen | MozCancelFullScreen | MsExitFullscreen

text \<open>
  An element handle's request capability: each field tells whether the element exposes
  the method of that name.
\<close>

record element =
  requestFullscreen :: bool
  webkitRequestFullscreen :: bool
  mozRequestFullScreen :: bool
  msRequestFullscreen :: bool

text \<open>
  The document: the four properties that report the fullscreen element, and whether each
  of the four exit methods exists.
\<close>

record document =
  doc_fullscreenElement :: jsval
  doc_webkitFullscreenElement :: jsval
  doc_mozFullScreenElement :: jsval
  doc_msFullscreenElement :: jsval
  doc_exitFullscreen :: bool
  doc_webkitExitFullscreen :: bool
  doc_mozCancelFullScreen :: bool
  doc_msExitFullscreen :: bool

text \<open>
  Every call the hook makes into the host is recorded, in order: a request method invoked
  on an element, an exit method invoked on the document, a listener added or removed.
\<close>

datatype call =
  ElementCall ref request_method
| DocumentCall exit_method
| AddListener string ref
| RemoveListener string ref

section \<open>The state of one hook instance and its environment\<close>

text \<open>
  \<open>elementRef\<close> is \<^verbatim>\<open>elementRef.current\<close>; \<open>isFullscreen\<close> is the React state;
  \<open>handleFullscreenChange_id\<close> is the identity of the memoised handler (\<^verbatim>\<open>useCallback\<close>
  with no dependencies: one function object for the instance's life); \<open>elements\<close> is the
  heap of element objects; \<open>listeners\<close> is the document's event listener list, as pairs
  of event type and callback.
\<close>

record state =
  elementRef :: jsval
  isFullscreen :: bool
  handleFullscreenChange_id :: ref
  document :: document
  elements :: "ref \<Rightarrow> element"
  listeners :: "(string \<times> ref) list"
  calls :: "call list"

text \<open>The first render: \<^verbatim>\<open>useRef(null)\<close> and \<^verbatim>\<open>useState(false)\<close>.\<close>

definition useFullscreen_init ::
  "ref \<Rightarrow> document \<Rightarrow> (ref \<Rightarrow> element) \<Rightarrow> (string \<times> ref) list \<Rightarrow> state" where
  "useFullscreen_init h d els ls =
     \<lparr> elementRef = Null, isFullscreen = False, handleFullscreenChange_id = h,
       document = d, elements = els, listeners = ls, calls = [] \<rparr>"

definition invoke :: "call \<Rightarrow> state \<Rightarrow> state" where
  "invoke c s = s\<lparr>calls := calls s @ [c]\<rparr>"

definition setIsFullscreen :: "bool \<Rightarrow> state \<Rightarrow> state" where
  "setIsFullscreen v s = s\<lparr>isFullscreen := v\<rparr>"

text \<open>Reading a property of the object a value denotes.\<close>

primrec deref :: "(ref \<Rightarrow> element) \<Rightarrow> jsval \<Rightarrow> error + (ref \<times> element)" where
  "deref els Undefined = Inl TypeError"
| "deref els Null = Inl TypeError"
| "deref els (Ref r) = Inr (r, els r)"

section \<open>The hook\<close>

definition getFullscreenElement :: "document \<Rightarrow> jsval" where
  "getFullscreenElement d =
     js_or (doc_fullscreenElement d)
       (js_or (doc_webkitFullscreenElement d)
         (js_or (doc_mozFullScreenElement d)
           (js_or (doc_msFullscreenElement d) Null)))"

definition handleFullscreenChange :: "state \<Rightarrow> state" where
  "handleFullscreenChange s =
     (let fullscreenElement = getFullscreenElement (document s)
      in setIsFullscreen (fullscreenElement = elementRef s) s)"

definition enterFullscreen :: "state \<Rightarrow> error + state" where
  "enterFullscreen s =
     (let element = elementRef s in
      if truthy element \<and> \<not> isFullscreen s then
        (case deref (elements s) element of
           Inl e \<Rightarrow> Inl e
         | Inr (r, obj) \<Rightarrow>
             if requestFullscreen obj then
               Inr (invoke (ElementCall r RequestFullscreen) s)
             else if webkitRequestFullscreen obj then
               Inr (invoke (ElementCall r WebkitRequestFullscreen) s)
             else if mozRequestFullScreen obj then
               Inr (invoke (ElementCall r MozRequestFullScreen) s)
             else if msRequestFullscreen obj then
               Inr (invoke (ElementCall r MsRequestFullscreen) s)
             else Inr s)
      else Inr s)"

definition exitFullscreen :: "state \<Rightarrow> error + state" where
  "exitFullscreen s =
     (if isFullscreen s then
        (if doc_exitFullscreen (document s) then
           Inr (invoke (DocumentCall ExitFullscreen) s)
         else if doc_webkitExitFullscreen (document s) then
           Inr (invoke (DocumentCall WebkitExitFullscreen) s)
         else if doc_mozCancelFullScreen (document s) then
           Inr (invoke (DocumentCall MozCancelFullScreen) s)
         else if doc_msExitFullscreen (document s) then
           Inr (invoke (DocumentCall MsExitFullscreen) s)
         else Inr s)
      else Inr s)"

definition toggleFullscreen :: "state \<Rightarrow> error + state" where
  "toggleFullscreen s =
     (if isFullscreen s then exitFullscreen s else enterFullscreen s)"

subsection \<open>The subscription effect\<close>

text \<open>
  The document's listener list holds a (type, callback) pair at most once: adding a pair
  that is already there changes nothing, removing takes the pair out.
\<close>

definition addEventListener :: "string \<Rightarrow> ref \<Rightarrow> state \<Rightarrow> state" where
  "addEventListener ty cb s =
     invoke (AddListener ty cb)
       (s\<lparr>listeners :=
            (if (ty, cb) \<in> set (listeners s) then listeners s
             else listeners s @ [(ty, cb)])\<rparr>)"

definition removeEventListener :: "string \<Rightarrow> ref \<Rightarrow> state \<Rightarrow> state" where
  "removeEventListener ty cb s =
     invoke (RemoveListener ty cb) (s\<lparr>listeners := remove1 (ty, cb) (listeners s)\<rparr>)"

text \<open>The body of \<^verbatim>\<open>useEffect\<close>, run when the component mounts.\<close>

definition effect_setup :: "state \<Rightarrow> state" where
  "effect_setup s =
     (let h = handleFullscreenChange_id s;
          s1 = addEventListener ''fullscreenchange'' h s;
          s2 = addEventListener ''webkitfullscreenchange'' h s1;
          s3 = addEventListener ''mozfullscreenchange'' h s2;
          s4 = addEventListener ''MSFullscreenChange'' h s3
      in s4)"

text \<open>The function the effect returns, run when the component unmounts.\<close>

definition effect_cleanup :: "state \<Rightarrow> state" where
  "effect_cleanup s =
     (let h = handleFullscreenChange_id s;
          s1 = removeEventListener ''fullscreenchange'' h s;
          s2 = removeEventListener ''webkitfullscreenchange'' h s1;
          s3 = removeEventListener ''mozfullscreenchange'' h s2;
          s4 = removeEventListener ''MSFullscreenChange'' h s3
      in s4)"

subsection \<open>Event dispatch\<close>

text \<open>
  Dispatching an event of type \<open>ty\<close> on the document runs, in order, every callback
  registered for \<open>ty\<close>. The hook's handler is the callback whose effect is modelled;
  callbacks of other code leave the hook's state alone.
\<close>

definition callbacks_for :: "string \<Rightarrow> state \<Rightarrow> ref list" where
  "callbacks_for ty s = map snd (filter (\<lambda>l. fst l = ty) (listeners s))"

definition run_callback :: "ref \<Rightarrow> state \<Rightarrow> state" where
  "run_callback cb s =
     (if cb = handleFullscreenChange_id s then handleFullscreenChange s else s)"

definition dispatchEvent :: "string \<Rightarrow> state \<Rightarrow> state" where
  "dispatchEvent ty s = fold run_callback (callbacks_for ty s) s"

subsection \<open>Runs of the hook in its environment\<close>

text \<open>
  What can happen to a mounted instance: the host changes what the document reports, the
  consumer binds or unbinds the element handle, the host dispatches an event, and the
  consumer calls one of the three operations. A run stops at the first error thrown.
\<close>

datatype action =
  SetDocument document
| BindRef jsval
| Dispatch string
| CallEnter
| CallExit
| CallToggle

primrec step :: "action \<Rightarrow> state \<Rightarrow> error + state" where
  "step (SetDocument d) s = Inr (s\<lparr>document := d\<rparr>)"
| "step (BindRef v) s = Inr (s\<lparr>elementRef := v\<rparr>)"
| "step (Dispatch ty) s = Inr (dispatchEvent ty s)"
| "step CallEnter s = enterFullscreen s"
| "step CallExit s = exitFullscreen s"
| "step CallToggle s = toggleFullscreen s"

primrec run :: "action list \<Rightarrow> state \<Rightarrow> error + state" where
  "run [] s = Inr s"
| "run (a # as) s = (case step a s of Inl e \<Rightarrow> Inl e | Inr s' \<Rightarrow> run as s')"

text \<open>The calls made between an earlier state and a later one.\<close>

definition new_calls :: "state \<Rightarrow> state \<Rightarrow> call list" where
  "new_calls s s' = drop (length (calls s)) (calls s')"

primrec subscription_of :: "call \<Rightarrow> (string \<times> ref) list" where
  "subscription_of (ElementCall r m) = []"
| "subscription_of (DocumentCall m) = []"
| "subscription_of (AddListener ty cb) = [(ty, cb)]"
| "subscription_of (RemoveListener ty cb) = []"

primrec unsubscription_of :: "call \<Rightarrow> (string \<times> ref) list" where
  "unsubscription_of (ElementCall r m) = []"
| "unsubscription_of (DocumentCall m) = []"
| "unsubscription_of (AddListener ty cb) = []"
| "unsubscription_of (RemoveListener ty cb) = [(ty, cb)]"

definition subscribed :: "call list \<Rightarrow> (string \<times> ref) list" where
  "subscribed cs = concat (map subscription_of cs)"

definition unsubscribed :: "call list \<Rightarrow> (string \<times> ref) list" where
  "unsubscribed cs = concat (map unsubscription_of cs)"

section \<open>The specification's wording, for comparison with the code\<close>

text \<open>A value is absent when it is \<^verbatim>\<open>undefined\<close> or \<^verbatim>\<open>null\<close>.\<close>

definition absent :: "jsval \<Rightarrow> bool" where
  "absent v = (v = Undefined \<or> v = Null)"

text \<open>
  The query as the specification words it: the properties in the order canonical, webkit,
  moz, ms; the first value that is not absent; an explicit \<open>Null\<close> when all are absent.
\<close>

definition spec_query :: "document \<Rightarrow> jsval" where
  "spec_query d =
     (case find (\<lambda>v. \<not> absent v)
             [doc_fullscreenElement d, doc_webkitFullscreenElement d,
              doc_mozFullScreenElement d, doc_msFullscreenElement d] of
        Some v \<Rightarrow> v
      | None \<Rightarrow> Null)"

primrec exposes :: "element \<Rightarrow> request_method \<Rightarrow> bool" where
  "exposes obj RequestFullscreen = requestFullscreen obj"
| "exposes obj WebkitRequestFullscreen = webkitRequestFullscreen obj"
| "exposes obj MozRequestFullScreen = mozRequestFullScreen obj"
| "exposes obj MsRequestFullscreen = msRequestFullscreen obj"

text \<open>The request method the specification selects: the first one present in the fixed order.\<close>

definition spec_request_order :: "request_method list" where
  "spec_request_order =
     [RequestFullscreen, WebkitRequestFullscreen, MozRequestFullScreen, MsRequestFullscreen]"

definition spec_first_request :: "element \<Rightarrow> request_method option" where
  "spec_first_request obj = find (exposes obj) spec_request_order"

text \<open>The four event types of the specification's notification capability.\<close>

definition spec_event_types :: "string list" where
  "spec_event_types =
     [''fullscreenchange'', ''webkitfullscreenchange'', ''mozfullscreenchange'',
      ''MSFullscreenChange'']"

section \<open>Concrete environments\<close>

definition standard_element :: element where
  "standard_element =
     \<lparr> requestFullscreen = True, webkitRequestFullscreen = False,
       mozRequestFullScreen = False, msRequestFullscreen = False \<rparr>"

definition webkit_only_element :: element where
  "webkit_only_element =
     \<lparr> requestFullscreen = False, webkitRequestFullscreen = True,
       mozRequestFullScreen = False, msRequestFullscreen = False \<rparr>"

definition bare_element :: element where
  "bare_element =
     \<lparr> requestFullscreen = False, webkitRequestFullscreen = False,
       mozRequestFullScreen = False, msRequestFullscreen = False \<rparr>"

text \<open>Element 1 is an old WebKit element, element 2 has no request method, the others are standard.\<close>

definition example_elements :: "ref \<Rightarrow> element" where
  "example_elements r =
     (if r = 1 then webkit_only_element else if r = 2 then bare_element
      else standard_element)"

text \<open>A standard document whose canonical property reports \<open>t\<close>.\<close>

definition standard_document :: "jsval \<Rightarrow> document" where
  "standard_document t =
     \<lparr> doc_fullscreenElement = t, doc_webkitFullscreenElement = Undefined,
       doc_mozFullScreenElement = Undefined, doc_msFullscreenElement = Undefined,
       doc_exitFullscreen = True, doc_webkitExitFullscreen = False,
       doc_mozCancelFullScreen = False, doc_msExitFullscreen = False \<rparr>"

text \<open>A document on which two properties report different elements at once.\<close>

definition conflicting_document :: document where
  "conflicting_document =
     (standard_document (Ref 3))\<lparr>doc_webkitFullscreenElement := Ref 4\<rparr>"

text \<open>A fresh instance with handler identity 7, nothing fullscreen, no listener yet.\<close>

definition fresh :: state where
  "fresh = useFullscreen_init 7 (standard_document Null) example_elements []"

text \<open>The fresh instance with element 5 bound.\<close>

definition bound :: state where
  "bound = fresh\<lparr>elementRef := Ref 5\<rparr>"

text \<open>The bound instance after the host has put element 5 in fullscreen and notified it.\<close>

definition active :: state where
  "active = fresh\<lparr>elementRef := Ref 5, isFullscreen := True,
                  document := standard_document (Ref 5)\<rparr>"

text \<open>The fresh instance bound to the old WebKit element, and to the element with no request method.\<close>

definition webkit_bound :: state where
  "webkit_bound = fresh\<lparr>elementRef := Ref 1\<rparr>"

definition bare_bound :: state where
  "bare_bound = fresh\<lparr>elementRef := Ref 2\<rparr>"

text \<open>
  The fresh instance after mounting and one \<^verbatim>\<open>fullscreenchange\<close> event, with no element
  bound and nothing in fullscreen.
\<close>

definition unbound_notified :: state where
  "unbound_notified =
     \<lparr> elementRef = Null, isFullscreen = True, handleFullscreenChange_id = 7,
       document = standard_document Null, elements = example_elements,
       listeners = [(''fullscreenchange'', 7), (''webkitfullscreenchange'', 7),
                    (''mozfullscreenchange'', 7), (''MSFullscreenChange'', 7)],
       calls = [AddListener ''fullscreenchange'' 7, AddListener ''webkitfullscreenchange'' 7,
                AddListener ''mozfullscreenchange'' 7, AddListener ''MSFullscreenChange'' 7] \<rparr>"

text \<open>The listener entries of a handler: one per event type.\<close>

definition handler_pairs :: "ref \<Rightarrow> (string \<times> ref) list" where
  "handler_pairs h = map (\<lambda>ty. (ty, h)) spec_event_types"

section \<open>Basic facts\<close>

lemmas state_defs = bound_def active_def

lemmas eval_defs =
  fresh_def useFullscreen_init_def standard_document_def example_elements_def
  standard_element_def webkit_only_element_def bare_element_def
  effect_setup_def effect_cleanup_def addEventListener_def removeEventListener_def
  invoke_def dispatchEvent_def callbacks_for_def run_callback_def
  handleFullscreenChange_def setIsFullscreen_def getFullscreenElement_def js_or_def
  enterFullscreen_def exitFullscreen_def toggleFullscreen_def Let_def

lemma handleFullscreenChange_eq:
  "handleFullscreenChange s =
     s\<lparr>isFullscreen := (getFullscreenElement (document s) = elementRef s)\<rparr>"
  by (simp add: handleFullscreenChange_def setIsFullscreen_def)

lemma handleFullscreenChange_idem:
  "handleFullscreenChange (handleFullscreenChange s) = handleFullscreenChange s"
  by (simp add: handleFullscreenChange_eq)

lemma handleFullscreenChange_id_same:
  "handleFullscreenChange_id (handleFullscreenChange s) = handleFullscreenChange_id s"
  by (simp add: handleFullscreenChange_eq)

lemma fold_run_callback:
  "fold run_callback cbs s =
     (if handleFullscreenChange_id s \<in> set cbs then handleFullscreenChange s else s)"
proof (induction cbs arbitrary: s)
  case Nil
  show ?case by simp
next
  case (Cons cb cbs)
  show ?case
  proof (cases "cb = handleFullscreenChange_id s")
    case True
    then have "run_callback cb s = handleFullscreenChange s"
      by (simp add: run_callback_def)
    then have "fold run_callback (cb # cbs) s = fold run_callback cbs (handleFullscreenChange s)"
      by simp
    also have "\<dots> = handleFullscreenChange s"
      by (simp add: Cons.IH handleFullscreenChange_idem handleFullscreenChange_id_same)
    finally show ?thesis using True by simp
  next
    case False
    then have "run_callback cb s = s"
      by (simp add: run_callback_def)
    then have "fold run_callback (cb # cbs) s = fold run_callback cbs s"
      by simp
    then show ?thesis using False by (simp add: Cons.IH)
  qed
qed

lemma dispatchEvent_eq:
  "dispatchEvent ty s =
     (if (ty, handleFullscreenChange_id s) \<in> set (listeners s)
      then handleFullscreenChange s else s)"
proof -
  have "handleFullscreenChange_id s \<in> set (callbacks_for ty s)
          \<longleftrightarrow> (ty, handleFullscreenChange_id s) \<in> set (listeners s)"
    by (force simp add: callbacks_for_def)
  then show ?thesis
    by (simp add: dispatchEvent_def fold_run_callback)
qed

lemma enterFullscreen_cases:
  "enterFullscreen s = Inr s \<or>
   (\<exists>r m. elementRef s = Ref r \<and> enterFullscreen s = Inr (invoke (ElementCall r m) s))"
  by (cases "elementRef s") (auto simp add: enterFullscreen_def)

lemma exitFullscreen_cases:
  "exitFullscreen s = Inr s \<or> (\<exists>m. exitFullscreen s = Inr (invoke (DocumentCall m) s))"
  by (auto simp add: exitFullscreen_def)

lemma toggleFullscreen_cases:
  "toggleFullscreen s = Inr s \<or> (\<exists>c. toggleFullscreen s = Inr (invoke c s))"
  using enterFullscreen_cases [of s] exitFullscreen_cases [of s]
  by (auto simp add: toggleFullscreen_def)

lemma step_cases:
  "\<exists>s'. step a s = Inr s' \<and> listeners s' = listeners s
        \<and> handleFullscreenChange_id s' = handleFullscreenChange_id s"
proof (cases a)
  case (Dispatch ty)
  then show ?thesis by (simp add: dispatchEvent_eq handleFullscreenChange_eq)
next
  case CallEnter
  then show ?thesis using enterFullscreen_cases [of s] by (auto simp add: invoke_def)
next
  case CallExit
  then show ?thesis using exitFullscreen_cases [of s] by (auto simp add: invoke_def)
next
  case CallToggle
  then show ?thesis using toggleFullscreen_cases [of s] by (auto simp add: invoke_def)
qed simp_all

lemma run_cases:
  "\<exists>s'. run acts s = Inr s' \<and> listeners s' = listeners s
        \<and> handleFullscreenChange_id s' = handleFullscreenChange_id s"
proof (induction acts arbitrary: s)
  case Nil
  show ?case by simp
next
  case (Cons a acts)
  obtain s1 where s1: "step a s = Inr s1" "listeners s1 = listeners s"
      "handleFullscreenChange_id s1 = handleFullscreenChange_id s"
    using step_cases [of a s] by blast
  from Cons.IH [of s1] s1 show ?case by auto
qed

lemma run_append:
  "run (xs @ ys) s = (case run xs s of Inl e \<Rightarrow> Inl e | Inr s' \<Rightarrow> run ys s')"
  by (induction xs arbitrary: s) (auto split: sum.splits)

lemma listeners_addEventListener:
  "set (listeners (addEventListener ty cb s)) = insert (ty, cb) (set (listeners s))"
  by (auto simp add: addEventListener_def invoke_def)

lemma id_addEventListener:
  "handleFullscreenChange_id (addEventListener ty cb s) = handleFullscreenChange_id s"
  by (simp add: addEventListener_def invoke_def)

lemma listeners_effect_setup:
  "set (listeners (effect_setup s)) =
     set (listeners s) \<union> (\<lambda>ty. (ty, handleFullscreenChange_id s)) ` set spec_event_types"
  by (auto simp add: effect_setup_def Let_def listeners_addEventListener spec_event_types_def)

lemma in_spec_event_types:
  "ty \<in> set spec_event_types \<longleftrightarrow>
     ty = ''fullscreenchange'' \<or> ty = ''webkitfullscreenchange'' \<or>
     ty = ''mozfullscreenchange'' \<or> ty = ''MSFullscreenChange''"
  by (auto simp add: spec_event_types_def)

lemma truthy_iff_present: "truthy v \<longleftrightarrow> \<not> absent v"
  by (cases v) (simp_all add: absent_def)

lemma spec_first_request_cases:
  "spec_first_request obj =
     (if requestFullscreen obj then Some RequestFullscreen
      else if webkitRequestFullscreen obj then Some WebkitRequestFullscreen
      else if mozRequestFullScreen obj then Some MozRequestFullScreen
      else if msRequestFullscreen obj then Some MsRequestFullscreen
      else None)"
  by (simp add: spec_first_request_def spec_request_order_def)

lemma handler_pairs_eq:
  "handler_pairs h =
     [(''fullscreenchange'', h), (''webkitfullscreenchange'', h),
      (''mozfullscreenchange'', h), (''MSFullscreenChange'', h)]"
  by (simp add: handler_pairs_def spec_event_types_def)

lemma calls_effect_setup:
  "calls (effect_setup s) =
     calls s @ map (\<lambda>ty. AddListener ty (handleFullscreenChange_id s)) spec_event_types"
  by (simp add: effect_setup_def Let_def addEventListener_def invoke_def spec_event_types_def)

lemma calls_effect_cleanup:
  "calls (effect_cleanup s) =
     calls s @ map (\<lambda>ty. RemoveListener ty (handleFullscreenChange_id s)) spec_event_types"
  by (simp add: effect_cleanup_def Let_def removeEventListener_def invoke_def
      spec_event_types_def)

lemma subscribed_effect_setup:
  "subscribed (new_calls s (effect_setup s)) = handler_pairs (handleFullscreenChange_id s)"
  by (simp add: new_calls_def calls_effect_setup subscribed_def handler_pairs_def
      spec_event_types_def)

lemma unsubscribed_effect_cleanup:
  "unsubscribed (new_calls s (effect_cleanup s)) = handler_pairs (handleFullscreenChange_id s)"
  by (simp add: new_calls_def calls_effect_cleanup unsubscribed_def handler_pairs_def
      spec_event_types_def)

lemma listeners_effect_setup_fresh:
  assumes "\<forall>ty. (ty, handleFullscreenChange_id s) \<notin> set (listeners s)"
  shows "listeners (effect_setup s) = listeners s @ handler_pairs (handleFullscreenChange_id s)"
  using assms
  by (simp add: effect_setup_def Let_def addEventListener_def invoke_def handler_pairs_eq)

lemma listeners_effect_cleanup:
  assumes "listeners u = ls @ handler_pairs (handleFullscreenChange_id u)"
    and "\<forall>ty. (ty, handleFullscreenChange_id u) \<notin> set ls"
  shows "listeners (effect_cleanup u) = ls"
  using assms
  by (simp add: effect_cleanup_def Let_def removeEventListener_def invoke_def handler_pairs_eq
      remove1_append)

lemma id_effect_cleanup:
  "handleFullscreenChange_id (effect_cleanup u) = handleFullscreenChange_id u"
  by (simp add: effect_cleanup_def Let_def removeEventListener_def invoke_def)

lemma id_effect_setup:
  "handleFullscreenChange_id (effect_setup s) = handleFullscreenChange_id s"
  by (simp add: effect_setup_def Let_def id_addEventListener)

section \<open>The flag\<close>

text \<open>
  C1. After the change-notification handler has run, the flag equals the comparison of the
  fullscreen target the environment reports with the element handle currently bound:
  true when they are the same reference, false otherwise. This holds for the handler run
  in any state, and so at the end of every run of a mounted instance (any sequence of
  document states, bindings and calls) that ends with the dispatch of one of the four
  fullscreen-change events.
\<close>

theorem flag_derivation:
  assumes "ty \<in> set spec_event_types"
  shows "isFullscreen (handleFullscreenChange s)
           = (getFullscreenElement (document s) = elementRef s)
       \<and> (\<exists>s'. run (acts @ [Dispatch ty]) (effect_setup s) = Inr s'
              \<and> isFullscreen s' = (getFullscreenElement (document s') = elementRef s'))"
proof -
  let ?h = "handleFullscreenChange_id s"
  obtain u where u: "run acts (effect_setup s) = Inr u"
      "listeners u = listeners (effect_setup s)"
      "handleFullscreenChange_id u = handleFullscreenChange_id (effect_setup s)"
    using run_cases [of acts "effect_setup s"] by blast
  have "handleFullscreenChange_id (effect_setup s) = ?h"
    by (simp add: effect_setup_def Let_def id_addEventListener)
  moreover have "(ty, ?h) \<in> set (listeners (effect_setup s))"
    using assms by (simp add: listeners_effect_setup)
  ultimately have "(ty, handleFullscreenChange_id u) \<in> set (listeners u)"
    using u by simp
  then have "dispatchEvent ty u = handleFullscreenChange u"
    by (simp add: dispatchEvent_eq)
  then have "run (acts @ [Dispatch ty]) (effect_setup s) = Inr (handleFullscreenChange u)"
    using u(1) by (simp add: run_append)
  moreover have "\<And>x. isFullscreen (handleFullscreenChange x)
           = (getFullscreenElement (document (handleFullscreenChange x))
                = elementRef (handleFullscreenChange x))"
    by (simp add: handleFullscreenChange_eq)
  moreover have "isFullscreen (handleFullscreenChange s)
           = (getFullscreenElement (document s) = elementRef s)"
    by (simp add: handleFullscreenChange_eq)
  ultimately show ?thesis by blast
qed

theorem flag_derivation_witness:
  "''fullscreenchange'' \<in> set spec_event_types
   \<and> (\<exists>s'. run ([BindRef (Ref 5), CallEnter, SetDocument (standard_document (Ref 5))]
                @ [Dispatch ''fullscreenchange'']) (effect_setup fresh) = Inr s'
          \<and> isFullscreen s' = (getFullscreenElement (document s') = elementRef s')
          \<and> isFullscreen s' \<and> calls s' = calls (effect_setup fresh) @ [ElementCall 5 RequestFullscreen])"
proof -
  have ty: "''fullscreenchange'' \<in> set spec_event_types"
    by (simp add: spec_event_types_def)
  let ?acts = "[BindRef (Ref 5), CallEnter, SetDocument (standard_document (Ref 5))]"
  obtain s' where s': "run (?acts @ [Dispatch ''fullscreenchange'']) (effect_setup fresh) = Inr s'"
      "isFullscreen s' = (getFullscreenElement (document s') = elementRef s')"
    using flag_derivation [OF ty, of fresh ?acts] by blast
  have "map_sum id isFullscreen
          (run (?acts @ [Dispatch ''fullscreenchange'']) (effect_setup fresh)) = Inr True"
    by (simp add: eval_defs)
  moreover have "map_sum id calls
          (run (?acts @ [Dispatch ''fullscreenchange'']) (effect_setup fresh))
        = Inr (calls (effect_setup fresh) @ [ElementCall 5 RequestFullscreen])"
    by (simp add: eval_defs)
  ultimately show ?thesis using ty s' by auto
qed

text \<open>
  C2. None of \<open>enterFullscreen\<close>, \<open>exitFullscreen\<close> and \<open>toggleFullscreen\<close> changes the
  flag, whatever the starting state; a step of a run that changes the flag is the dispatch
  of an event, and the state it yields is the handler's.
\<close>

theorem flag_only_set_by_handler:
  "(\<exists>s'. enterFullscreen s = Inr s' \<and> isFullscreen s' = isFullscreen s)
   \<and> (\<exists>s'. exitFullscreen s = Inr s' \<and> isFullscreen s' = isFullscreen s)
   \<and> (\<exists>s'. toggleFullscreen s = Inr s' \<and> isFullscreen s' = isFullscreen s)
   \<and> (\<forall>s'. step a s = Inr s' \<and> isFullscreen s' \<noteq> isFullscreen s
          \<longrightarrow> (\<exists>ty. a = Dispatch ty)
              \<and> s' = handleFullscreenChange s)"
proof -
  have e: "\<exists>s'. enterFullscreen s = Inr s' \<and> isFullscreen s' = isFullscreen s"
    using enterFullscreen_cases [of s] by (auto simp add: invoke_def)
  have x: "\<exists>s'. exitFullscreen s = Inr s' \<and> isFullscreen s' = isFullscreen s"
    using exitFullscreen_cases [of s] by (auto simp add: invoke_def)
  have t: "\<exists>s'. toggleFullscreen s = Inr s' \<and> isFullscreen s' = isFullscreen s"
    using e x by (cases "isFullscreen s") (simp_all add: toggleFullscreen_def)
  have "\<forall>s'. step a s = Inr s' \<and> isFullscreen s' \<noteq> isFullscreen s
          \<longrightarrow> (\<exists>ty. a = Dispatch ty) \<and> s' = handleFullscreenChange s"
  proof (cases a)
    case (Dispatch ty)
    then show ?thesis by (auto simp add: dispatchEvent_eq)
  next
    case CallEnter
    then show ?thesis using e by auto
  next
    case CallExit
    then show ?thesis using x by auto
  next
    case CallToggle
    then show ?thesis using t by auto
  qed auto
  with e x t show ?thesis by blast
qed

theorem flag_only_set_by_handler_witness:
  "(\<exists>s'. enterFullscreen bound = Inr s' \<and> isFullscreen s' = isFullscreen bound
         \<and> calls s' = [ElementCall 5 RequestFullscreen])
   \<and> (\<exists>s'. exitFullscreen active = Inr s' \<and> isFullscreen s' = isFullscreen active
         \<and> calls s' = [DocumentCall ExitFullscreen])
   \<and> step (Dispatch ''fullscreenchange'') (effect_setup fresh)
        = Inr (handleFullscreenChange (effect_setup fresh))
   \<and> isFullscreen (handleFullscreenChange (effect_setup fresh))
        \<noteq> isFullscreen (effect_setup fresh)
   \<and> (\<exists>ty. Dispatch ''fullscreenchange'' = Dispatch ty)"
proof -
  have 1: "step (Dispatch ''fullscreenchange'') (effect_setup fresh)
        = Inr (handleFullscreenChange (effect_setup fresh))"
    by (simp add: eval_defs)
  have 2: "isFullscreen (handleFullscreenChange (effect_setup fresh))
        \<noteq> isFullscreen (effect_setup fresh)"
    by (simp add: eval_defs)
  have 3: "map_sum id calls (enterFullscreen bound) = Inr [ElementCall 5 RequestFullscreen]"
    by (simp add: eval_defs state_defs)
  have 4: "map_sum id calls (exitFullscreen active) = Inr [DocumentCall ExitFullscreen]"
    by (simp add: eval_defs state_defs)
  from flag_only_set_by_handler [of bound "Dispatch ''fullscreenchange''"] 3
  have a: "\<exists>s'. enterFullscreen bound = Inr s' \<and> isFullscreen s' = isFullscreen bound
         \<and> calls s' = [ElementCall 5 RequestFullscreen]"
    by auto
  from flag_only_set_by_handler [of active "Dispatch ''fullscreenchange''"] 4
  have b: "\<exists>s'. exitFullscreen active = Inr s' \<and> isFullscreen s' = isFullscreen active
         \<and> calls s' = [DocumentCall ExitFullscreen]"
    by auto
  from flag_only_set_by_handler [of "effect_setup fresh" "Dispatch ''fullscreenchange''"] 1 2
  have c: "\<exists>ty. Dispatch ''fullscreenchange'' = Dispatch ty"
    by blast
  from a b c 1 2 show ?thesis by blast
qed

section \<open>The three operations\<close>

text \<open>
  C3. \<open>toggleFullscreen\<close> is \<open>exitFullscreen\<close> when the flag is true and
  \<open>enterFullscreen\<close> when it is false: same result, same calls, nothing of its own.
\<close>

theorem toggle_delegates:
  "(isFullscreen s \<longrightarrow> toggleFullscreen s = exitFullscreen s)
   \<and> (\<not> isFullscreen s \<longrightarrow> toggleFullscreen s = enterFullscreen s)"
  by (simp add: toggleFullscreen_def)

theorem toggle_delegates_witness:
  "isFullscreen active \<and> toggleFullscreen active = exitFullscreen active
   \<and> toggleFullscreen active = Inr (invoke (DocumentCall ExitFullscreen) active)
   \<and> \<not> isFullscreen bound \<and> toggleFullscreen bound = enterFullscreen bound
   \<and> toggleFullscreen bound = Inr (invoke (ElementCall 5 RequestFullscreen) bound)"
proof -
  have a: "isFullscreen active" by (simp add: state_defs)
  have b: "\<not> isFullscreen bound" by (simp add: state_defs eval_defs)
  have "exitFullscreen active = Inr (invoke (DocumentCall ExitFullscreen) active)"
    by (simp add: exitFullscreen_def state_defs standard_document_def)
  moreover have "enterFullscreen bound = Inr (invoke (ElementCall 5 RequestFullscreen) bound)"
    by (simp add: enterFullscreen_def state_defs fresh_def useFullscreen_init_def
        example_elements_def standard_element_def)
  ultimately show ?thesis
    using a b toggle_delegates [of active] toggle_delegates [of bound] by simp
qed

text \<open>
  C4. When the element handle is absent or the flag is true, \<open>enterFullscreen\<close> returns
  the state as it was: no request method is invoked on any element.
\<close>

theorem enter_guard_noop:
  assumes "\<not> truthy (elementRef s) \<or> isFullscreen s"
  shows "enterFullscreen s = Inr s"
  using assms by (auto simp add: enterFullscreen_def)

theorem enter_guard_noop_witness:
  "\<not> truthy (elementRef fresh) \<and> enterFullscreen fresh = Inr fresh
   \<and> isFullscreen active \<and> enterFullscreen active = Inr active"
proof -
  have a: "\<not> truthy (elementRef fresh)"
    by (simp add: fresh_def useFullscreen_init_def)
  have b: "isFullscreen active"
    by (simp add: state_defs)
  from a b enter_guard_noop [of fresh] enter_guard_noop [of active]
  show ?thesis by simp
qed

text \<open>
  C5. When the flag is false, \<open>exitFullscreen\<close> returns the state as it was: no exit
  method is invoked on the document.
\<close>

theorem exit_guard_noop:
  assumes "\<not> isFullscreen s"
  shows "exitFullscreen s = Inr s"
  using assms by (simp add: exitFullscreen_def)

theorem exit_guard_noop_witness:
  "\<not> isFullscreen bound \<and> doc_exitFullscreen (document bound)
   \<and> exitFullscreen bound = Inr bound"
proof -
  have a: "\<not> isFullscreen bound"
    by (simp add: state_defs fresh_def useFullscreen_init_def)
  have b: "doc_exitFullscreen (document bound)"
    by (simp add: state_defs fresh_def useFullscreen_init_def standard_document_def)
  from a b exit_guard_noop [OF a] show ?thesis by simp
qed

section \<open>Priority order\<close>

text \<open>
  C6. The query reads the document's properties in the order canonical, webkit, moz, ms
  and returns the first value that is not absent, as the specification words it; it never
  returns \<^verbatim>\<open>undefined\<close>; it returns \<open>Null\<close> when all four are absent; and the canonical
  property wins whenever it is present, whatever else is present with it.
\<close>

theorem query_priority:
  "getFullscreenElement d = spec_query d
   \<and> getFullscreenElement d \<noteq> Undefined
   \<and> (\<not> absent (doc_fullscreenElement d)
        \<longrightarrow> getFullscreenElement d = doc_fullscreenElement d)
   \<and> (absent (doc_fullscreenElement d) \<and> absent (doc_webkitFullscreenElement d)
        \<and> absent (doc_mozFullScreenElement d) \<and> absent (doc_msFullscreenElement d)
        \<longrightarrow> getFullscreenElement d = Null)"
proof -
  have "getFullscreenElement d = spec_query d"
    by (simp add: getFullscreenElement_def spec_query_def js_or_def truthy_iff_present)
  moreover have "getFullscreenElement d \<noteq> Undefined"
    by (auto simp add: getFullscreenElement_def js_or_def)
  moreover have "\<not> absent (doc_fullscreenElement d)
        \<longrightarrow> getFullscreenElement d = doc_fullscreenElement d"
    by (simp add: getFullscreenElement_def js_or_def truthy_iff_present)
  moreover have "absent (doc_fullscreenElement d) \<and> absent (doc_webkitFullscreenElement d)
        \<and> absent (doc_mozFullScreenElement d) \<and> absent (doc_msFullscreenElement d)
        \<longrightarrow> getFullscreenElement d = Null"
    by (simp add: getFullscreenElement_def js_or_def truthy_iff_present)
  ultimately show ?thesis by blast
qed

theorem query_priority_witness:
  "\<not> absent (doc_fullscreenElement conflicting_document)
   \<and> \<not> absent (doc_webkitFullscreenElement conflicting_document)
   \<and> getFullscreenElement conflicting_document = Ref 3
   \<and> spec_query conflicting_document = Ref 3
   \<and> absent (doc_fullscreenElement (standard_document Undefined))
   \<and> absent (doc_webkitFullscreenElement (standard_document Undefined))
   \<and> absent (doc_mozFullScreenElement (standard_document Undefined))
   \<and> absent (doc_msFullscreenElement (standard_document Undefined))
   \<and> getFullscreenElement (standard_document Undefined) = Null"
proof -
  have a: "\<not> absent (doc_fullscreenElement conflicting_document)"
      "\<not> absent (doc_webkitFullscreenElement conflicting_document)"
      "doc_fullscreenElement conflicting_document = Ref 3"
    by (simp_all add: conflicting_document_def standard_document_def absent_def)
  have b: "absent (doc_fullscreenElement (standard_document Undefined))"
      "absent (doc_webkitFullscreenElement (standard_document Undefined))"
      "absent (doc_mozFullScreenElement (standard_document Undefined))"
      "absent (doc_msFullscreenElement (standard_document Undefined))"
    by (simp_all add: standard_document_def absent_def)
  have c: "getFullscreenElement conflicting_document = Ref 3"
      "spec_query conflicting_document = Ref 3"
    using a query_priority [of conflicting_document] by auto
  have "getFullscreenElement (standard_document Undefined) = Null"
    using b query_priority [of "standard_document Undefined"] by blast
  with a(1,2) b c show ?thesis by blast
qed

text \<open>
  C7, as amended. When the enter guard passes (a handle is bound, the flag is false) and
  the element exposes at least one request method, \<open>enterFullscreen\<close> makes exactly one
  call: the first method present in the order canonical, webkit, moz, ms, on the bound
  element. When the element exposes none, it makes no call. In particular, for an element
  exposing a single method \<open>k\<close>, the one call is \<open>k\<close>.
\<close>

theorem enter_invokes_first_present:
  assumes "elementRef s = Ref r" and "\<not> isFullscreen s"
  shows "(\<forall>m. spec_first_request (elements s r) = Some m
            \<longrightarrow> enterFullscreen s = Inr (s\<lparr>calls := calls s @ [ElementCall r m]\<rparr>))
       \<and> (spec_first_request (elements s r) = None \<longrightarrow> enterFullscreen s = Inr s)
       \<and> ((\<forall>m. exposes (elements s r) m \<longleftrightarrow> m = k)
            \<longrightarrow> enterFullscreen s = Inr (s\<lparr>calls := calls s @ [ElementCall r k]\<rparr>))"
proof -
  have some: "enterFullscreen s = Inr (s\<lparr>calls := calls s @ [ElementCall r m]\<rparr>)"
    if "spec_first_request (elements s r) = Some m" for m
    using assms that
    by (auto simp add: enterFullscreen_def invoke_def spec_first_request_cases
        split: if_splits)
  have none: "enterFullscreen s = Inr s" if "spec_first_request (elements s r) = None"
    using assms that
    by (auto simp add: enterFullscreen_def spec_first_request_cases split: if_splits)
  have only: "enterFullscreen s = Inr (s\<lparr>calls := calls s @ [ElementCall r k]\<rparr>)"
    if k: "\<forall>m. exposes (elements s r) m \<longleftrightarrow> m = k"
  proof -
    have e: "requestFullscreen (elements s r) = (RequestFullscreen = k)"
        "webkitRequestFullscreen (elements s r) = (WebkitRequestFullscreen = k)"
        "mozRequestFullScreen (elements s r) = (MozRequestFullScreen = k)"
        "msRequestFullscreen (elements s r) = (MsRequestFullscreen = k)"
      using k [rule_format, of RequestFullscreen] k [rule_format, of WebkitRequestFullscreen]
        k [rule_format, of MozRequestFullScreen] k [rule_format, of MsRequestFullscreen]
      by simp_all
    have "spec_first_request (elements s r) = Some k"
      by (cases k) (simp_all add: spec_first_request_cases e)
    then show ?thesis by (rule some)
  qed
  show ?thesis
  proof (intro conjI allI impI)
    fix m assume "spec_first_request (elements s r) = Some m"
    then show "enterFullscreen s = Inr (s\<lparr>calls := calls s @ [ElementCall r m]\<rparr>)"
      by (rule some)
  next
    assume "spec_first_request (elements s r) = None"
    then show "enterFullscreen s = Inr s" by (rule none)
  next
    assume "\<forall>m. exposes (elements s r) m \<longleftrightarrow> m = k"
    then show "enterFullscreen s = Inr (s\<lparr>calls := calls s @ [ElementCall r k]\<rparr>)"
      by (rule only)
  qed
qed

theorem enter_invokes_first_present_witness:
  "elementRef webkit_bound = Ref 1 \<and> \<not> isFullscreen webkit_bound
   \<and> spec_first_request (elements webkit_bound 1) = Some WebkitRequestFullscreen
   \<and> (\<forall>m. exposes (elements webkit_bound 1) m \<longleftrightarrow> m = WebkitRequestFullscreen)
   \<and> enterFullscreen webkit_bound
       = Inr (webkit_bound\<lparr>calls := calls webkit_bound @ [ElementCall 1 WebkitRequestFullscreen]\<rparr>)
   \<and> new_calls webkit_bound
        (webkit_bound\<lparr>calls := calls webkit_bound @ [ElementCall 1 WebkitRequestFullscreen]\<rparr>)
       = [ElementCall 1 WebkitRequestFullscreen]
   \<and> elementRef bare_bound = Ref 2 \<and> \<not> isFullscreen bare_bound
   \<and> spec_first_request (elements bare_bound 2) = None
   \<and> enterFullscreen bare_bound = Inr bare_bound"
proof -
  have a: "elementRef webkit_bound = Ref 1" "\<not> isFullscreen webkit_bound"
    by (simp_all add: webkit_bound_def fresh_def useFullscreen_init_def)
  have b: "spec_first_request (elements webkit_bound 1) = Some WebkitRequestFullscreen"
    by (simp add: spec_first_request_cases webkit_bound_def fresh_def useFullscreen_init_def
        example_elements_def webkit_only_element_def)
  have o: "\<forall>m. exposes (elements webkit_bound 1) m \<longleftrightarrow> m = WebkitRequestFullscreen"
  proof
    fix m show "exposes (elements webkit_bound 1) m \<longleftrightarrow> m = WebkitRequestFullscreen"
      by (cases m) (simp_all add: webkit_bound_def fresh_def useFullscreen_init_def
          example_elements_def webkit_only_element_def)
  qed
  have c: "new_calls webkit_bound
        (webkit_bound\<lparr>calls := calls webkit_bound @ [ElementCall 1 WebkitRequestFullscreen]\<rparr>)
       = [ElementCall 1 WebkitRequestFullscreen]"
    by (simp add: new_calls_def)
  have d: "elementRef bare_bound = Ref 2" "\<not> isFullscreen bare_bound"
    by (simp_all add: bare_bound_def fresh_def useFullscreen_init_def)
  have e: "spec_first_request (elements bare_bound 2) = None"
    by (simp add: bare_bound_def fresh_def useFullscreen_init_def spec_first_request_cases
        example_elements_def bare_element_def)
  note w = enter_invokes_first_present [OF a, of WebkitRequestFullscreen]
  have "(\<forall>m. exposes (elements webkit_bound 1) m \<longleftrightarrow> m = WebkitRequestFullscreen)
          \<longrightarrow> enterFullscreen webkit_bound
       = Inr (webkit_bound\<lparr>calls := calls webkit_bound @ [ElementCall 1 WebkitRequestFullscreen]\<rparr>)"
    using w by (rule conjunct2 [THEN conjunct2])
  then have f: "enterFullscreen webkit_bound
       = Inr (webkit_bound\<lparr>calls := calls webkit_bound @ [ElementCall 1 WebkitRequestFullscreen]\<rparr>)"
    using o by (rule mp)
  note n = enter_invokes_first_present [OF d, of WebkitRequestFullscreen]
  have "spec_first_request (elements bare_bound 2) = None
          \<longrightarrow> enterFullscreen bare_bound = Inr bare_bound"
    using n by (rule conjunct2 [THEN conjunct1])
  then have g: "enterFullscreen bare_bound = Inr bare_bound"
    using e by (rule mp)
  from a b o c d e f g show ?thesis by (intro conjI)
qed

text \<open>
  C7 as worded (exactly one request method is invoked whenever the guard passes) fails
  for a bound element that exposes no request method: the guard passes and nothing is
  invoked.
\<close>

theorem enter_bare_element_counterexample:
  "truthy (elementRef bare_bound) \<and> \<not> isFullscreen bare_bound
   \<and> enterFullscreen bare_bound = Inr bare_bound
   \<and> new_calls bare_bound bare_bound = []"
  by (simp add: bare_bound_def fresh_def useFullscreen_init_def enterFullscreen_def
      example_elements_def bare_element_def new_calls_def)

section \<open>Subscription lifecycle\<close>

text \<open>
  C8. For a handler that is not yet registered when the component mounts: the
  (type, handler) pairs added by the effect are the four event types of the specification
  (distinct, the last one capitalised differently) with the instance's handler; the pairs
  removed by the cleanup, after any run of the mounted instance, are the same set with the
  same handler; and after the cleanup the handler is registered for no event type, so
  dispatching an event leaves the state as it is.
\<close>

theorem subscription_symmetry:
  assumes "\<forall>ty. (ty, handleFullscreenChange_id s) \<notin> set (listeners s)"
    and "run acts (effect_setup s) = Inr u"
  shows "set (subscribed (new_calls s (effect_setup s)))
           = set (unsubscribed (new_calls u (effect_cleanup u)))
       \<and> subscribed (new_calls s (effect_setup s))
           = map (\<lambda>ty. (ty, handleFullscreenChange_id s)) spec_event_types
       \<and> unsubscribed (new_calls u (effect_cleanup u))
           = map (\<lambda>ty. (ty, handleFullscreenChange_id s)) spec_event_types
       \<and> distinct spec_event_types \<and> length spec_event_types = 4
       \<and> handleFullscreenChange_id s \<notin> set (callbacks_for ty (effect_cleanup u))
       \<and> dispatchEvent ty (effect_cleanup u) = effect_cleanup u"
proof -
  let ?h = "handleFullscreenChange_id s"
  have u: "listeners u = listeners (effect_setup s)" "handleFullscreenChange_id u = ?h"
    using run_cases [of acts "effect_setup s"] assms(2) by (auto simp add: id_effect_setup)
  have sub: "subscribed (new_calls s (effect_setup s)) = handler_pairs ?h"
    by (rule subscribed_effect_setup)
  have unsub: "unsubscribed (new_calls u (effect_cleanup u)) = handler_pairs ?h"
    using u(2) by (simp add: unsubscribed_effect_cleanup)
  have "listeners u = listeners s @ handler_pairs (handleFullscreenChange_id u)"
    using u assms(1) by (simp add: listeners_effect_setup_fresh)
  then have after: "listeners (effect_cleanup u) = listeners s"
    using assms(1) u(2) by (intro listeners_effect_cleanup) simp_all
  have gone: "(ty, handleFullscreenChange_id (effect_cleanup u)) \<notin> set (listeners (effect_cleanup u))"
    using after assms(1) u(2) by (simp add: id_effect_cleanup)
  then have quiet: "dispatchEvent ty (effect_cleanup u) = effect_cleanup u"
    by (simp add: dispatchEvent_eq)
  have none: "?h \<notin> set (callbacks_for ty (effect_cleanup u))"
    using gone u(2) by (force simp add: callbacks_for_def id_effect_cleanup)
  have names: "distinct spec_event_types" "length spec_event_types = 4"
    by (simp_all add: spec_event_types_def)
  from sub unsub quiet none names show ?thesis
    by (simp add: handler_pairs_def)
qed

theorem subscription_symmetry_witness:
  "(\<forall>ty. (ty, handleFullscreenChange_id fresh) \<notin> set (listeners fresh))
   \<and> (\<exists>u. run [BindRef (Ref 5), CallEnter] (effect_setup fresh) = Inr u
         \<and> set (subscribed (new_calls fresh (effect_setup fresh)))
             = set (unsubscribed (new_calls u (effect_cleanup u)))
         \<and> set (subscribed (new_calls fresh (effect_setup fresh)))
             = {(''fullscreenchange'', 7), (''webkitfullscreenchange'', 7),
                (''mozfullscreenchange'', 7), (''MSFullscreenChange'', 7)}
         \<and> dispatchEvent ''fullscreenchange'' (effect_cleanup u) = effect_cleanup u)"
proof -
  have f: "\<forall>ty. (ty, handleFullscreenChange_id fresh) \<notin> set (listeners fresh)"
    by (simp add: fresh_def useFullscreen_init_def)
  obtain u where u: "run [BindRef (Ref 5), CallEnter] (effect_setup fresh) = Inr u"
    using run_cases [of "[BindRef (Ref 5), CallEnter]" "effect_setup fresh"] by blast
  have h: "handleFullscreenChange_id fresh = 7"
    by (simp add: fresh_def useFullscreen_init_def)
  have "set (map (\<lambda>ty. (ty, handleFullscreenChange_id fresh)) spec_event_types)
             = {(''fullscreenchange'', 7), (''webkitfullscreenchange'', 7),
                (''mozfullscreenchange'', 7), (''MSFullscreenChange'', 7)}"
    by (simp add: h spec_event_types_def)
  with subscription_symmetry [OF f u, of "''fullscreenchange''"] f u
  show ?thesis by auto
qed

section \<open>Failure surface\<close>

text \<open>
  C9. With no element handle bound, the three operations should do nothing. The code does
  not keep to this. Mounting a fresh instance and dispatching one \<^verbatim>\<open>fullscreenchange\<close>
  event, on a document that reports no fullscreen target, leaves the handle unbound and
  nothing in fullscreen, yet the handler has set the flag to true (it compares \<^verbatim>\<open>null\<close>
  with \<^verbatim>\<open>null\<close>). In that state \<open>enterFullscreen\<close> does nothing, but
  \<open>exitFullscreen\<close> and \<open>toggleFullscreen\<close> each invoke the document's
  \<^verbatim>\<open>exitFullscreen\<close> method.
\<close>

theorem unbound_exit_invokes_document:
  "run [Dispatch ''fullscreenchange''] (effect_setup fresh) = Inr unbound_notified
   \<and> elementRef unbound_notified = Null
   \<and> getFullscreenElement (document unbound_notified) = Null
   \<and> isFullscreen unbound_notified
   \<and> enterFullscreen unbound_notified = Inr unbound_notified
   \<and> exitFullscreen unbound_notified
       = Inr (unbound_notified\<lparr>calls := calls unbound_notified @ [DocumentCall ExitFullscreen]\<rparr>)
   \<and> toggleFullscreen unbound_notified
       = Inr (unbound_notified\<lparr>calls := calls unbound_notified @ [DocumentCall ExitFullscreen]\<rparr>)
   \<and> new_calls unbound_notified
        (unbound_notified\<lparr>calls := calls unbound_notified @ [DocumentCall ExitFullscreen]\<rparr>)
       = [DocumentCall ExitFullscreen]"
proof -
  have "run [Dispatch ''fullscreenchange''] (effect_setup fresh) = Inr unbound_notified"
    by (simp add: eval_defs unbound_notified_def)
  moreover have "elementRef unbound_notified = Null"
    by (simp add: unbound_notified_def)
  moreover have "getFullscreenElement (document unbound_notified) = Null"
    by (simp add: unbound_notified_def getFullscreenElement_def js_or_def standard_document_def)
  moreover have "isFullscreen unbound_notified"
    by (simp add: unbound_notified_def)
  moreover have "enterFullscreen unbound_notified = Inr unbound_notified"
    by (simp add: enterFullscreen_def unbound_notified_def)
  moreover have "exitFullscreen unbound_notified
       = Inr (unbound_notified\<lparr>calls := calls unbound_notified @ [DocumentCall ExitFullscreen]\<rparr>)"
    by (simp add: exitFullscreen_def invoke_def unbound_notified_def standard_document_def)
  moreover have "toggleFullscreen unbound_notified = exitFullscreen unbound_notified"
    by (simp add: toggleFullscreen_def unbound_notified_def)
  moreover have "new_calls unbound_notified
        (unbound_notified\<lparr>calls := calls unbound_notified @ [DocumentCall ExitFullscreen]\<rparr>)
       = [DocumentCall ExitFullscreen]"
    by (simp add: new_calls_def)
  ultimately show ?thesis by (simp only: simp_thms)
qed

section \<open>The unbound handle and the absent target\<close>

text \<open>
  C10. An instance starts with no handle bound and the flag false. When no handle is
  bound and the query yields \<open>Null\<close>, the handler sets the flag to true (\<open>Null\<close>
  equals \<open>Null\<close>); so the first fullscreen-change event dispatched to a freshly mounted
  instance, on a document that reports no fullscreen target, makes the flag true.
\<close>

theorem null_handle_null_target:
  assumes "getFullscreenElement d = Null" and "ty \<in> set spec_event_types"
  shows "elementRef (useFullscreen_init h d els ls) = Null
       \<and> \<not> isFullscreen (useFullscreen_init h d els ls)
       \<and> isFullscreen (handleFullscreenChange (useFullscreen_init h d els ls))
       \<and> isFullscreen (dispatchEvent ty (effect_setup (useFullscreen_init h d els ls)))
       \<and> (elementRef s = Null \<and> getFullscreenElement (document s) = Null
            \<longrightarrow> isFullscreen (handleFullscreenChange s))"
proof -
  let ?i = "useFullscreen_init h d els ls"
  have i: "elementRef ?i = Null" "\<not> isFullscreen ?i" "document ?i = d"
    by (simp_all add: useFullscreen_init_def)
  have a: "isFullscreen (handleFullscreenChange ?i)"
    using assms(1) i by (simp add: handleFullscreenChange_eq)
  have "(ty, handleFullscreenChange_id (effect_setup ?i)) \<in> set (listeners (effect_setup ?i))"
    using assms(2) by (simp add: listeners_effect_setup id_effect_setup)
  then have "dispatchEvent ty (effect_setup ?i) = handleFullscreenChange (effect_setup ?i)"
    by (simp add: dispatchEvent_eq)
  moreover have "elementRef (effect_setup ?i) = Null" "document (effect_setup ?i) = d"
    by (simp_all add: effect_setup_def Let_def addEventListener_def invoke_def
        useFullscreen_init_def)
  ultimately have b: "isFullscreen (dispatchEvent ty (effect_setup ?i))"
    using assms(1) by (simp add: handleFullscreenChange_eq)
  have c: "elementRef s = Null \<and> getFullscreenElement (document s) = Null
            \<longrightarrow> isFullscreen (handleFullscreenChange s)"
    by (simp add: handleFullscreenChange_eq)
  from i(1,2) a b c show ?thesis by (intro conjI)
qed

theorem null_handle_null_target_witness:
  "getFullscreenElement (standard_document Null) = Null
   \<and> ''MSFullscreenChange'' \<in> set spec_event_types
   \<and> elementRef fresh = Null \<and> \<not> isFullscreen fresh
   \<and> isFullscreen (handleFullscreenChange fresh)
   \<and> isFullscreen (dispatchEvent ''MSFullscreenChange'' (effect_setup fresh))"
proof -
  have a: "getFullscreenElement (standard_document Null) = Null"
    by (simp add: getFullscreenElement_def js_or_def standard_document_def)
  have b: "''MSFullscreenChange'' \<in> set spec_event_types"
    by (simp add: spec_event_types_def)
  from null_handle_null_target [OF a b, of 7 example_elements "[]" fresh] a b
  show ?thesis by (simp add: fresh_def)
qed

end
